theory Spec2Isabelle
  imports Main
begin

section \<open>Python values, exceptions and log records\<close>

text \<open>
  The storage backend is Python.  Exceptions are values of \<open>exn\<close>; a computation that may
  raise returns \<open>exn + 'a\<close> with \<open>Inl\<close> for the raised exception.  The constructors are the
  exception families the source distinguishes in its \<open>except\<close> clauses: \<open>IOError\<close> (the
  \<open>OSError\<close> family), \<open>SSHException\<close> (the transport library's own family) and
  \<open>ValueError\<close>; the remaining ones are raised by the interpreter or by the source itself.
\<close>

datatype exn =
    IOError string
  | SSHException string
  | AttributeError string
  | TypeError string
  | KeyError string
  | ValueError string
  | ImproperlyConfigured string
  | SSHStorageException string
  | SSHClientManagerException

fun is_IOError :: "exn \<Rightarrow> bool" where
  "is_IOError (IOError _) = True"
| "is_IOError _ = False"

fun is_SSHException :: "exn \<Rightarrow> bool" where
  "is_SSHException (SSHException _) = True"
| "is_SSHException _ = False"

fun is_ValueError :: "exn \<Rightarrow> bool" where
  "is_ValueError (ValueError _) = True"
| "is_ValueError _ = False"

fun exn_str :: "exn \<Rightarrow> string" where
  "exn_str (IOError s) = s"
| "exn_str (SSHException s) = s"
| "exn_str (AttributeError s) = s"
| "exn_str (TypeError s) = s"
| "exn_str (KeyError s) = s"
| "exn_str (ValueError s) = s"
| "exn_str (ImproperlyConfigured s) = s"
| "exn_str (SSHStorageException s) = s"
| "exn_str SSHClientManagerException = []"

text \<open>Records written through the module logger \<open>ssh-storage\<close>, oldest first.\<close>

datatype level = DEBUG | ERROR | FATAL

type_synonym event = "level \<times> string"

text \<open>Python truthiness of an optional string: \<open>None\<close> and \<open>''\<close> are false.\<close>

fun truthy :: "string option \<Rightarrow> bool" where
  "truthy None = False"
| "truthy (Some s) = (s \<noteq> [])"

section \<open>The transport\<close>

text \<open>
  The SSH/SFTP library is outside the repository, so it is a parameter of the model.
  \<open>'s\<close> is an SSH client object, \<open>'r\<close> an SFTP client together with the remote side it
  reaches.  A call that raises returns \<open>Some e\<close>; the queries \<open>stat\<close> and \<open>lstat\<close>
  leave the remote side as it is, \<open>mkdir\<close>, \<open>put\<close> and \<open>putfo\<close> return the new one
  (also when they raise).
\<close>

datatype source =
    PathStr string
  | FileLike string bool string

text \<open>
  What \<open>upload\<close> is given: a plain string (a local path), or an object with a \<open>name\<close>
  attribute; the flag says whether it also has a \<open>file\<close> attribute, the last field is its
  content.
\<close>

record ssh_kwargs =
  kw_port :: int
  kw_username :: "string option"
  kw_password :: "string option"
  kw_key_filename :: "string option"

record ('s, 'r) transport =
  new_client :: "'s"
  set_policy :: "'s \<Rightarrow> 's"
  ssh_connect :: "'s \<Rightarrow> string option \<Rightarrow> ssh_kwargs \<Rightarrow> exn + 's"
  open_sftp :: "'s \<Rightarrow> exn + 'r"
  ssh_close :: "'s \<Rightarrow> exn option"
  sftp_close :: "'r \<Rightarrow> exn option"
  sftp_stat :: "'r \<Rightarrow> string \<Rightarrow> exn option"
  sftp_lstat :: "'r \<Rightarrow> string \<Rightarrow> exn option"
  sftp_mkdir :: "'r \<Rightarrow> string \<Rightarrow> exn option \<times> 'r"
  sftp_put :: "'r \<Rightarrow> string \<Rightarrow> string \<Rightarrow> exn option \<times> 'r"
  sftp_putfo :: "'r \<Rightarrow> source \<Rightarrow> string \<Rightarrow> exn option \<times> 'r"

section \<open>SSHClientManager\<close>

text \<open>
  An instance attribute that holds an object, holds \<open>None\<close>, or does not exist
  (\<open>hasattr\<close> is false).
\<close>

datatype 'a attr = Unset | PyNone | Obj 'a

record ('s, 'r) manager =
  hostname :: "string option"
  username :: "string option"
  password :: "string option"
  port :: int
  rsa_key :: "string option"
  basepath :: "string option"
  currentpath :: "string option"
  p_ssh :: "'s option"
  p_sftp :: "'r attr"

text \<open>\<open>SSHClientManager.__init__\<close>: both handles start as \<open>None\<close>.\<close>

definition init :: "string option \<Rightarrow> string option \<Rightarrow> string option \<Rightarrow> int \<Rightarrow>
    string option \<Rightarrow> string option \<Rightarrow> ('s, 'r) manager" where
  "init h u pw po key bp =
     \<lparr>hostname = h, username = u, password = pw, port = po, rsa_key = key,
      basepath = bp, currentpath = bp, p_ssh = None, p_sftp = PyNone\<rparr>"

text \<open>\<open>check\<close>: pure validation.\<close>

definition check :: "('s, 'r) manager \<Rightarrow> exn + unit" where
  "check m =
     (if \<not> truthy (username m) then Inl SSHClientManagerException
      else if \<not> truthy (password m) \<and> \<not> truthy (rsa_key m) then Inl SSHClientManagerException
      else Inr ())"

text \<open>
  \<open>connect\<close>: only the transport library's own exception family is turned into
  \<open>False\<close>; anything else propagates.
\<close>

definition connect :: "('s, 'r) transport \<Rightarrow> ('s, 'r) manager \<Rightarrow> ssh_kwargs \<Rightarrow>
    (exn + bool) \<times> ('s, 'r) manager \<times> event list" where
  "connect T m kwargs =
     (case p_ssh m of
        None \<Rightarrow> (Inl (AttributeError ''connect''), m, [])
      | Some s \<Rightarrow>
          (case ssh_connect T s (hostname m) kwargs of
             Inl e \<Rightarrow>
               if is_SSHException e then (Inr False, m, [(DEBUG, ''Connection Failed'')])
               else (Inl e, m, [])
           | Inr s' \<Rightarrow>
               (case open_sftp T s' of
                  Inl e \<Rightarrow>
                    if is_SSHException e
                    then (Inr False, m\<lparr>p_ssh := Some s'\<rparr>, [(DEBUG, ''Connection Failed'')])
                    else (Inl e, m\<lparr>p_ssh := Some s'\<rparr>, [])
                | Inr r \<Rightarrow>
                    (Inr True, m\<lparr>p_ssh := Some s', p_sftp := Obj r\<rparr>,
                     [(DEBUG, ''OK. Connection established!'')]))))"

text \<open>The method \<open>setup\<close> of the manager.\<close>

definition setup_manager :: "('s, 'r) transport \<Rightarrow> ('s, 'r) manager \<Rightarrow>
    (exn + bool) \<times> ('s, 'r) manager \<times> event list" where
  "setup_manager T m =
     (let m1 = m\<lparr>p_ssh := Some (set_policy T (new_client T))\<rparr>;
          ssh_kwargs = \<lparr>kw_port = port m1,
                        kw_username = (if truthy (username m1) then username m1 else None),
                        kw_password = (if truthy (password m1) then password m1 else None),
                        kw_key_filename = (if truthy (rsa_key m1) then rsa_key m1 else None)\<rparr>
      in connect T m1 ssh_kwargs)"

text \<open>
  The \<open>sftp\<close> property: \<open>setup\<close> runs only when the instance has no attribute
  \<open>_sftp\<close> at all; the value of the attribute is returned as it is.
\<close>

definition sftp :: "('s, 'r) transport \<Rightarrow> ('s, 'r) manager \<Rightarrow>
    (exn + 'r attr) \<times> ('s, 'r) manager \<times> event list" where
  "sftp T m =
     (if p_sftp m = Unset then
        (case setup_manager T m of
           (Inl e, m', ev) \<Rightarrow> (Inl e, m', ev)
         | (Inr _, m', ev) \<Rightarrow>
             (if p_sftp m' = Unset then (Inl (AttributeError ''_sftp''), m', ev)
              else (Inr (p_sftp m'), m', ev)))
      else (Inr (p_sftp m), m, []))"

text \<open>
  \<open>close_connection\<close>.  \<open>close_body\<close> is the \<open>try\<close> block: the seven configuration
  attributes are assigned first, then the two handles are closed and set to \<open>None\<close>.
  Calling a method on \<open>None\<close> raises \<open>AttributeError\<close>.  The bare \<open>except\<close> around the
  block turns every exception into the result \<open>False\<close>.
\<close>

definition reset_config :: "('s, 'r) manager \<Rightarrow> ('s, 'r) manager" where
  "reset_config m =
     m\<lparr>hostname := None, username := None, password := None, port := 22,
       rsa_key := None, basepath := None, currentpath := None\<rparr>"

definition close_body :: "('s, 'r) transport \<Rightarrow> ('s, 'r) manager \<Rightarrow>
    (exn + bool) \<times> ('s, 'r) manager" where
  "close_body T m =
     (let m1 = reset_config m in
      case p_sftp m1 of
        Unset \<Rightarrow> (Inl (AttributeError ''_sftp''), m1)
      | PyNone \<Rightarrow> (Inl (AttributeError ''close''), m1)
      | Obj r \<Rightarrow>
          (case sftp_close T r of
             Some e \<Rightarrow> (Inl e, m1)
           | None \<Rightarrow>
               (case p_ssh m1 of
                  None \<Rightarrow> (Inl (AttributeError ''close''), m1)
                | Some s \<Rightarrow>
                    (case ssh_close T s of
                       Some e \<Rightarrow> (Inl e, m1)
                     | None \<Rightarrow> (Inr True, m1\<lparr>p_sftp := PyNone, p_ssh := None\<rparr>)))))"

definition close_connection :: "('s, 'r) transport \<Rightarrow> ('s, 'r) manager \<Rightarrow>
    (exn + bool) \<times> ('s, 'r) manager" where
  "close_connection T m =
     (case close_body T m of
        (Inl e, m') \<Rightarrow> (Inr False, m')
      | (Inr b, m') \<Rightarrow> (Inr b, m'))"

section \<open>Path and string functions of the Python library\<close>

text \<open>
  The source builds remote paths with \<open>os.path\<close>; the program runs on a POSIX system, so
  \<open>os.path\<close> is \<open>posixpath\<close>, whose functions are written out here as the library
  defines them.
\<close>

definition startswith_sep :: "string \<Rightarrow> bool" where
  "startswith_sep b = (case b of [] \<Rightarrow> False | c # _ \<Rightarrow> c = CHR ''/'')"

definition endswith_sep :: "string \<Rightarrow> bool" where
  "endswith_sep p = (p \<noteq> [] \<and> last p = CHR ''/'')"

text \<open>One round of the loop of \<open>posixpath.join\<close>, and the function itself.\<close>

definition join_step :: "string \<Rightarrow> string \<Rightarrow> string" where
  "join_step path b =
     (if startswith_sep b then b
      else if path = [] \<or> endswith_sep path then path @ b
      else path @ ''/'' @ b)"

definition os_path_join :: "string \<Rightarrow> string list \<Rightarrow> string" where
  "os_path_join a p = foldl join_step a p"

text \<open>\<open>str.rfind\<close> for a single character: the last index, or \<open>-1\<close>.\<close>

fun rfind_from :: "char \<Rightarrow> string \<Rightarrow> int \<Rightarrow> int \<Rightarrow> int" where
  "rfind_from c [] i acc = acc"
| "rfind_from c (x # xs) i acc = rfind_from c xs (i + 1) (if x = c then i else acc)"

definition rfind :: "char \<Rightarrow> string \<Rightarrow> int" where
  "rfind c p = rfind_from c p 0 (- 1)"

definition rstrip_sep :: "string \<Rightarrow> string" where
  "rstrip_sep p = rev (dropWhile (\<lambda>c. c = CHR ''/'') (rev p))"

text \<open>\<open>posixpath.split\<close>: head and tail around the last slash.\<close>

definition os_path_split :: "string \<Rightarrow> string \<times> string" where
  "os_path_split p =
     (let i = nat (rfind CHR ''/'' p + 1);
          head = take i p;
          tail = drop i p
      in if head \<noteq> [] \<and> head \<noteq> replicate (length head) CHR ''/''
         then (rstrip_sep head, tail) else (head, tail))"

text \<open>
  \<open>posixpath.splitext\<close>: the extension starts at the last dot of the last component,
  unless that component has only dots before it.
\<close>

definition os_path_splitext :: "string \<Rightarrow> string \<times> string" where
  "os_path_splitext p =
     (let sepIndex = rfind CHR ''/'' p;
          extIndex = rfind CHR ''.'' p
      in if extIndex > sepIndex \<and>
            list_ex (\<lambda>c. c \<noteq> CHR ''.'')
              (take (nat (extIndex - (sepIndex + 1))) (drop (nat (sepIndex + 1)) p))
         then (take (nat extIndex) p, drop (nat extIndex) p)
         else (p, []))"

text \<open>\<open>str.split\<close> with a one-character separator.\<close>

fun str_split :: "char \<Rightarrow> string \<Rightarrow> string list" where
  "str_split sep [] = [[]]"
| "str_split sep (c # cs) =
     (if c = sep then [] # str_split sep cs
      else (case str_split sep cs of
              [] \<Rightarrow> [[c]]
            | w # ws \<Rightarrow> (c # w) # ws))"

text \<open>Decimal notation, as \<open>str.format\<close> prints an integer.\<close>

definition digit_char :: "nat \<Rightarrow> char" where
  "digit_char d = ''0123456789'' ! d"

fun str_nat :: "nat \<Rightarrow> string" where
  "str_nat n = (if n < 10 then [digit_char n] else str_nat (n div 10) @ [digit_char (n mod 10)])"

declare str_nat.simps [simp del]

definition str_int :: "int \<Rightarrow> string" where
  "str_int i = (if i < 0 then CHR ''-'' # str_nat (nat (- i)) else str_nat (nat i))"

section \<open>Directory creation and upload\<close>

text \<open>
  The loop of \<open>mkdir\<close> over \<open>range(1, len(pathdirs))\<close>: each path
  \<open>os.path.join('/', *pathdirs[:pp + 1])\<close> is probed with \<open>lstat\<close> and created when the
  probe raises \<open>IOError\<close>.  Nothing catches what the inner \<open>mkdir\<close> raises.
\<close>

fun mkdir_walk :: "('s, 'r) transport \<Rightarrow> 'r \<Rightarrow> string list \<Rightarrow> nat list \<Rightarrow> exn option \<times> 'r" where
  "mkdir_walk T r pathdirs [] = (None, r)"
| "mkdir_walk T r pathdirs (pp # pps) =
     (let currentpath = os_path_join ''/'' (take (pp + 1) pathdirs) in
      case sftp_lstat T r currentpath of
        None \<Rightarrow> mkdir_walk T r pathdirs pps
      | Some e \<Rightarrow>
          if is_IOError e then
            (case sftp_mkdir T r currentpath of
               (None, r') \<Rightarrow> mkdir_walk T r' pathdirs pps
             | (Some e', r') \<Rightarrow> (Some e', r'))
          else (Some e, r))"

text \<open>
  \<open>mkdir\<close> works on the attribute \<open>_sftp\<close> directly.  The path is the Python value it is
  given, so it may be \<open>None\<close> (a manager built without a base path); the transport has
  no encoding for that and the call raises \<open>TypeError\<close>.
\<close>

definition mkdir :: "('s, 'r) transport \<Rightarrow> ('s, 'r) manager \<Rightarrow> string option \<Rightarrow> bool \<Rightarrow>
    (exn + string option) \<times> ('s, 'r) manager" where
  "mkdir T m path recursive =
     (case p_sftp m of
        Unset \<Rightarrow> (Inl (AttributeError ''_sftp''), m)
      | PyNone \<Rightarrow> (Inl (AttributeError ''mkdir''), m)
      | Obj r \<Rightarrow>
          (case path of
             None \<Rightarrow> (Inl (TypeError ''path''), m)
           | Some p \<Rightarrow>
               (case sftp_mkdir T r p of
                  (None, r1) \<Rightarrow> (Inr path, m\<lparr>p_sftp := Obj r1\<rparr>)
                | (Some e, r1) \<Rightarrow>
                    if is_IOError e then
                      (if recursive then
                         (let pathdirs = str_split CHR ''/'' p in
                          case mkdir_walk T r1 pathdirs [1 ..< length pathdirs] of
                            (None, r2) \<Rightarrow> (Inr path, m\<lparr>p_sftp := Obj r2\<rparr>)
                          | (Some e', r2) \<Rightarrow> (Inl e', m\<lparr>p_sftp := Obj r2\<rparr>))
                       else (Inl e, m\<lparr>p_sftp := Obj r1\<rparr>))
                    else (Inl e, m\<lparr>p_sftp := Obj r1\<rparr>))))"

text \<open>
  The \<open>while True\<close> loop of \<open>upload\<close>.  It has no bound, so the function is partial:
  \<open>None\<close> means the loop never leaves.  The bare \<open>except\<close> leaves the loop on any
  exception of the probe, also on the \<open>AttributeError\<close> of a missing handle.  The log
  records of the rounds are collected in \<open>ev\<close>.
\<close>

partial_function (option) find_destpath ::
  "('s, 'r) transport \<Rightarrow> 'r attr \<Rightarrow> bool \<Rightarrow> string \<Rightarrow> string \<Rightarrow> nat \<Rightarrow> string \<Rightarrow> event list \<Rightarrow>
     (string \<times> event list) option" where
  "find_destpath T h overwrite filename_prefix filename_ext counter destpath ev =
     (case h of
        Obj r \<Rightarrow>
          (case sftp_lstat T r destpath of
             Some e \<Rightarrow> Some (destpath, ev)
           | None \<Rightarrow>
               if overwrite then Some (destpath, ev @ [(DEBUG, ''Filename found. Overwriting'')])
               else
                 find_destpath T h overwrite filename_prefix filename_ext (counter + 1)
                   (filename_prefix @ ''_'' @ str_nat (counter + 1) @ filename_ext)
                   (ev @ [(DEBUG, ''Filename found. Will try '' @
                            filename_prefix @ ''_'' @ str_nat (counter + 1) @ filename_ext)]))
      | _ \<Rightarrow> Some (destpath, ev))"

text \<open>The transfer at the end of \<open>upload\<close>: only \<open>IOError\<close> becomes \<open>False\<close>.\<close>

definition transfer :: "('s, 'r) transport \<Rightarrow> ('s, 'r) manager \<Rightarrow> source \<Rightarrow> bool \<Rightarrow> string \<Rightarrow>
    string \<Rightarrow> (exn + bool) \<times> ('s, 'r) manager \<times> event list" where
  "transfer T m sourcefile is_file filename destpath =
     (let ev = [(DEBUG, ''Uploading '' @ filename @ '' to '' @ destpath)] in
      case p_sftp m of
        Unset \<Rightarrow> (Inl (AttributeError ''_sftp''), m, ev)
      | PyNone \<Rightarrow> (Inl (AttributeError (if is_file then ''putfo'' else ''put'')), m, ev)
      | Obj r \<Rightarrow>
          (case (if is_file then sftp_putfo T r sourcefile destpath
                 else sftp_put T r filename destpath) of
             (None, r') \<Rightarrow> (Inr True, m\<lparr>p_sftp := Obj r'\<rparr>, ev)
           | (Some ioe, r') \<Rightarrow>
               if is_IOError ioe then
                 (Inr False, m\<lparr>p_sftp := Obj r'\<rparr>,
                  ev @ [(ERROR, ''There were problems uploading '' @ filename @ '' to '' @
                          destpath @ ''.'' @ [CHR 0x0A] @ exn_str ioe)])
               else (Inl ioe, m\<lparr>p_sftp := Obj r'\<rparr>, ev)))"

text \<open>
  \<open>upload(sourcefile, path=None, destname=None, overwrite=True)\<close>.  The result is
  \<open>None\<close> when the probing loop does not end; otherwise the value returned or the
  exception raised, the manager afterwards, and the log records written.
\<close>

definition source_is_file :: "source \<Rightarrow> bool" where
  "source_is_file sourcefile = (case sourcefile of PathStr _ \<Rightarrow> False | FileLike _ f _ \<Rightarrow> f)"

definition source_filename :: "source \<Rightarrow> string" where
  "source_filename sourcefile = (case sourcefile of PathStr s \<Rightarrow> s | FileLike n _ _ \<Rightarrow> n)"

definition resolve_destname :: "string \<Rightarrow> string option \<Rightarrow> string" where
  "resolve_destname filename destname =
     (if \<not> truthy destname then snd (os_path_split filename) else the destname)"

definition resolve_path :: "('s, 'r) manager \<Rightarrow> string option \<Rightarrow> exn + string option" where
  "resolve_path m path =
     (if \<not> truthy path then Inr (currentpath m)
      else (case basepath m of
              None \<Rightarrow> Inl (TypeError ''join'')
            | Some b \<Rightarrow> Inr (Some (os_path_join b [the path]))))"

definition upload :: "('s, 'r) transport \<Rightarrow> ('s, 'r) manager \<Rightarrow> source \<Rightarrow> string option \<Rightarrow>
    string option \<Rightarrow> bool \<Rightarrow> ((exn + bool) \<times> ('s, 'r) manager \<times> event list) option" where
  "upload T m sourcefile path destname overwrite =
     (let is_file = source_is_file sourcefile;
          filename = source_filename sourcefile;
          destname1 = resolve_destname filename destname
      in case resolve_path m path of
           Inl e \<Rightarrow> Some (Inl e, m, [])
         | Inr path1 \<Rightarrow>
             (case mkdir T m path1 True of
                (Inl e, m1) \<Rightarrow> Some (Inl e, m1, [])
              | (Inr None, m1) \<Rightarrow> Some (Inl (TypeError ''join''), m1, [])
              | (Inr (Some p), m1) \<Rightarrow>
                  (let destpath = os_path_join p [destname1];
                       (filename_prefix, filename_ext) = os_path_splitext destpath
                   in case find_destpath T (p_sftp m1) overwrite filename_prefix filename_ext 0
                             destpath [] of
                        None \<Rightarrow> None
                      | Some (destpath1, ev1) \<Rightarrow>
                          (case transfer T m1 sourcefile is_file filename destpath1 of
                             (res, m2, ev2) \<Rightarrow> Some (res, m2, ev1 @ ev2)))))"

section \<open>Settings and configuration\<close>

text \<open>
  The settings dictionary and the decoded configuration are Python dictionaries with
  string keys: maps from keys to values.  A value is a string, an integer, \<open>None\<close> or
  a list of strings (the host names).
\<close>

datatype pyval = PStr string | PInt int | PNone | PList "string list"

type_synonym dict = "string \<rightharpoonup> pyval"

text \<open>\<open>d.get(k, default)\<close> and \<open>d[k]\<close>.\<close>

definition dict_get :: "dict \<Rightarrow> string \<Rightarrow> pyval \<Rightarrow> pyval" where
  "dict_get d k dflt = (case d k of None \<Rightarrow> dflt | Some v \<Rightarrow> v)"

definition getitem :: "dict \<Rightarrow> string \<Rightarrow> exn + pyval" where
  "getitem d k = (case d k of None \<Rightarrow> Inl (KeyError k) | Some v \<Rightarrow> Inr v)"

text \<open>Sequencing of statements that may raise.\<close>

definition bind_exn :: "exn + 'a \<Rightarrow> ('a \<Rightarrow> exn + 'b) \<Rightarrow> exn + 'b" where
  "bind_exn x f = (case x of Inl e \<Rightarrow> Inl e | Inr v \<Rightarrow> f v)"

text \<open>
  \<open>str.lower\<close> on the letters A to Z (the source compares the result with
  \<open>http://\<close> and \<open>https://\<close> only); a value that is not a string has no such method.
\<close>

definition lower_char :: "char \<Rightarrow> char" where
  "lower_char c =
     (case map_of (zip ''ABCDEFGHIJKLMNOPQRSTUVWXYZ'' ''abcdefghijklmnopqrstuvwxyz'') c of
        None \<Rightarrow> c
      | Some l \<Rightarrow> l)"

fun py_lower :: "pyval \<Rightarrow> exn + string" where
  "py_lower (PStr s) = Inr (map lower_char s)"
| "py_lower _ = Inl (AttributeError ''lower'')"

text \<open>
  What \<open>str.format\<close> prints for a value.  For a list the quoting of the items is the
  plain one, without the escapes \<open>repr\<close> adds for special characters.
\<close>

fun join_comma :: "string list \<Rightarrow> string" where
  "join_comma [] = []"
| "join_comma [x] = x"
| "join_comma (x # y # ys) = x @ '', '' @ join_comma (y # ys)"

fun py_str :: "pyval \<Rightarrow> string" where
  "py_str (PStr s) = s"
| "py_str (PInt i) = str_int i"
| "py_str PNone = ''None''"
| "py_str (PList xs) = ''['' @ join_comma (map (\<lambda>x. [CHR 0x27] @ x @ [CHR 0x27]) xs) @ '']''"

text \<open>\<open>os.path.join\<close> on Python values: every part must be a string.\<close>

fun the_str :: "pyval \<Rightarrow> string option" where
  "the_str (PStr s) = Some s"
| "the_str _ = None"

definition py_os_path_join :: "pyval \<Rightarrow> pyval list \<Rightarrow> exn + string" where
  "py_os_path_join a p =
     (if list_all (\<lambda>v. the_str v \<noteq> None) (a # p)
      then Inr (os_path_join (the (the_str a)) (map (\<lambda>v. the (the_str v)) p))
      else Inl (TypeError ''join''))"

text \<open>
  The two library functions whose result depends on the machine or on Python's number
  syntax are parameters: \<open>os.path.exists\<close> on the local file system and the built-in
  \<open>int\<close>.
\<close>

record env =
  path_exists :: "pyval \<Rightarrow> exn + bool"
  py_int :: "pyval \<Rightarrow> exn + int"

subsection \<open>\<open>SSHStorage._decode_location\<close>\<close>

text \<open>
  The blocks of the function after the mandatory checks, in the order of the source.  The
  functions of this section return a value or raise; the records they write to the log
  (a trace record on entry, and the message of the exception before it is raised) are
  not part of the model.
\<close>

definition set_protocol :: "dict \<Rightarrow> dict \<Rightarrow> exn + dict" where
  "set_protocol location config =
     (let protocol = dict_get location ''PROTOCOL'' (PStr []) in
      if protocol = PStr [] then Inr (config(''protocol'' \<mapsto> PStr ''http://''))
      else bind_exn (py_lower protocol) (\<lambda>l.
             if l \<noteq> ''http://'' \<and> l \<noteq> ''https://''
             then Inr (config(''protocol'' \<mapsto> PStr ''http://''))
             else Inr (config(''protocol'' \<mapsto> PStr l))))"

definition set_credentials :: "env \<Rightarrow> dict \<Rightarrow> dict \<Rightarrow> exn + dict" where
  "set_credentials E location config =
     (if dict_get location ''PASSWORD'' (PStr []) = PStr [] then
        bind_exn (getitem location ''RSA_KEY'') (\<lambda>key.
          bind_exn (path_exists E key) (\<lambda>found.
            if \<not> found then
              Inl (ImproperlyConfigured
                     (''The file '' @ [CHR 0x27] @ py_str key @ [CHR 0x27] @
                      '' has not been found.''))
            else Inr (config(''password'' \<mapsto> PNone, ''rsa_key'' \<mapsto> key))))
      else
        bind_exn (getitem location ''PASSWORD'') (\<lambda>pw.
          Inr (config(''password'' \<mapsto> pw, ''rsa_key'' \<mapsto> PNone))))"

definition set_port :: "env \<Rightarrow> dict \<Rightarrow> dict \<Rightarrow> exn + dict" where
  "set_port E location config =
     (if dict_get location ''PORT'' (PStr []) = PStr [] then Inr (config(''port'' \<mapsto> PInt 22))
      else
        bind_exn (getitem location ''PORT'') (\<lambda>v.
          case py_int E v of
            Inr n \<Rightarrow> Inr (config(''port'' \<mapsto> PInt n))
          | Inl e \<Rightarrow> if is_ValueError e then Inr (config(''port'' \<mapsto> PInt 22)) else Inl e))"

definition set_static_proxy_protocol :: "dict \<Rightarrow> dict \<Rightarrow> exn + dict" where
  "set_static_proxy_protocol location config =
     (let static_proxy_protocol = dict_get location ''STATIC_PROXY_PROTOCOL'' (PStr []) in
      if static_proxy_protocol = PStr [] then
        bind_exn (getitem config ''protocol'') (\<lambda>p.
          Inr (config(''static_proxy_protocol'' \<mapsto> p)))
      else bind_exn (py_lower static_proxy_protocol) (\<lambda>l.
             if l \<noteq> ''http://'' \<and> l \<noteq> ''https://''
             then bind_exn (getitem config ''protocol'') (\<lambda>p.
                    Inr (config(''static_proxy_protocol'' \<mapsto> p)))
             else Inr (config(''static_proxy_protocol'' \<mapsto> static_proxy_protocol))))"

definition set_static_proxy_hostname :: "dict \<Rightarrow> dict \<Rightarrow> exn + dict" where
  "set_static_proxy_hostname location config =
     (let static_proxy_hostname = dict_get location ''STATIC_PROXY_HOSTNAME'' (PStr []) in
      if static_proxy_hostname = PStr [] then
        bind_exn (getitem config ''hostname'') (\<lambda>h.
          Inr (config(''static_proxy_hostname'' \<mapsto> h)))
      else Inr (config(''static_proxy_hostname'' \<mapsto> static_proxy_hostname)))"

definition set_static_proxy_port :: "env \<Rightarrow> dict \<Rightarrow> dict \<Rightarrow> exn + dict" where
  "set_static_proxy_port E location config =
     (let static_proxy_port = dict_get location ''STATIC_PROXY_PORT'' (PStr []) in
      if static_proxy_port = PStr [] then Inr (config(''static_proxy_port'' \<mapsto> PStr ''80''))
      else
        (case py_int E static_proxy_port of
           Inr n \<Rightarrow> Inr (config(''static_proxy_port'' \<mapsto> static_proxy_port))
         | Inl e \<Rightarrow>
             if is_ValueError e then Inr (config(''static_proxy_port'' \<mapsto> PStr ''80''))
             else Inl e))"

definition decode_location :: "env \<Rightarrow> dict \<Rightarrow> exn + dict" where
  "decode_location E location =
     (if dict_get location ''HOSTNAME'' (PStr []) = PStr [] then
        Inl (ImproperlyConfigured ''A hostname must be provided.'')
      else if dict_get location ''USERNAME'' (PStr []) = PStr [] then
        Inl (ImproperlyConfigured ''A username must be provided.'')
      else if dict_get location ''BASEPATH'' (PStr []) = PStr [] then
        Inl (ImproperlyConfigured ''A basepath must be provided.'')
      else if dict_get location ''PASSWORD'' (PStr []) = PStr [] \<and>
              dict_get location ''RSA_KEY'' (PStr []) = PStr [] then
        Inl (ImproperlyConfigured ''A password or rsa_key must be provided.'')
      else
        bind_exn (getitem location ''HOSTNAME'') (\<lambda>h.
        bind_exn (getitem location ''USERNAME'') (\<lambda>u.
        bind_exn (getitem location ''BASEPATH'') (\<lambda>b.
        bind_exn (set_protocol location
                    (Map.empty(''hostname'' \<mapsto> h, ''username'' \<mapsto> u, ''basepath'' \<mapsto> b))) (\<lambda>c1.
        bind_exn (set_credentials E location c1) (\<lambda>c2.
        bind_exn (set_port E location c2) (\<lambda>c3.
        bind_exn (set_static_proxy_protocol location c3) (\<lambda>c4.
        bind_exn (set_static_proxy_hostname location c4) (\<lambda>c5.
        set_static_proxy_port E location c5)))))))))"

subsection \<open>\<open>MultipleSSHStorages._decode_location\<close>\<close>

definition multi_decode_location :: "env \<Rightarrow> dict \<Rightarrow> exn + dict" where
  "multi_decode_location E location =
     (if dict_get location ''HOSTNAMES'' (PStr []) = PStr [] then
        Inl (ImproperlyConfigured ''A hostname must be provided.'')
      else
        (let location1 = location(''HOSTNAME'' \<mapsto> PStr ''localhost'') in
         bind_exn (decode_location E location1) (\<lambda>config.
         bind_exn (getitem location1 ''HOSTNAMES'') (\<lambda>hs.
           Inr (config(''hostnames'' \<mapsto> hs))))))"

subsection \<open>\<open>_add_to_basepath\<close>, \<open>_remote_path\<close> and \<open>url\<close>\<close>

definition add_to_basepath :: "dict \<Rightarrow> string \<Rightarrow> exn + dict" where
  "add_to_basepath config location =
     (let config1 = config(''location'' \<mapsto> PStr location) in
      bind_exn (getitem config1 ''basepath'') (\<lambda>path.
      bind_exn (py_os_path_join path [PStr location]) (\<lambda>path1.
        Inr (config1(''basepath'' \<mapsto> PStr path1)))))"


definition url :: "dict \<Rightarrow> string \<Rightarrow> exn + string" where
  "url config name =
     bind_exn (getitem config ''static_proxy_hostname'') (\<lambda>h.
     bind_exn (getitem config ''static_proxy_port'') (\<lambda>p.
       (let hostname_aux = (if p \<noteq> PStr ''80'' then PStr (py_str h @ '':'' @ py_str p) else h) in
        bind_exn (getitem config ''static_proxy_protocol'') (\<lambda>proto.
        bind_exn (getitem config ''location'') (\<lambda>loc.
        bind_exn (py_os_path_join proto [hostname_aux, loc, PStr name]) (\<lambda>the_url.
          Inr (map (\<lambda>c. if c = CHR 0x5C then CHR ''/'' else c) the_url)))))))"

text \<open>
  The constructors: \<open>SSHStorage\<close> decodes the settings; \<open>StaticStorage\<close> and
  \<open>MediaStorage\<close> then add their location (the setting \<open>STATICFILES_LOCATION\<close> or
  \<open>MEDIAFILES_LOCATION\<close>) to the base path.
\<close>

definition ssh_storage_init :: "env \<Rightarrow> dict \<Rightarrow> exn + dict" where
  "ssh_storage_init E location = decode_location E location"

definition static_storage_init :: "env \<Rightarrow> dict \<Rightarrow> string \<Rightarrow> exn + dict" where
  "static_storage_init E location static_location =
     bind_exn (ssh_storage_init E location) (\<lambda>config. add_to_basepath config static_location)"

section \<open>MultipleSSHStorages\<close>








section \<open>A transport for the examples\<close>

text \<open>
  A small remote file system on which the statements below are run: the directories and
  the files that exist (a file with its content), and a switch that makes every write
  fail.  A probe of a missing path, a \<open>mkdir\<close> of an existing path or below a missing
  parent, and any write on a read-only remote raise \<open>IOError\<close>.  A relative path is
  looked up as it is written; its first component lies in the login directory.
\<close>

record remote =
  dirs :: "string list"
  files :: "(string \<times> string) list"
  readonly :: bool

definition fs_present :: "remote \<Rightarrow> string \<Rightarrow> bool" where
  "fs_present r p = (p \<in> set (dirs r @ map fst (files r)))"

definition fs_lstat :: "remote \<Rightarrow> string \<Rightarrow> exn option" where
  "fs_lstat r p = (if fs_present r p then None else Some (IOError ''No such file''))"

definition fs_parent_present :: "remote \<Rightarrow> string \<Rightarrow> bool" where
  "fs_parent_present r p =
     (let h = fst (os_path_split p) in h = [] \<or> h = ''/'' \<or> h \<in> set (dirs r))"

definition fs_mkdir :: "remote \<Rightarrow> string \<Rightarrow> exn option \<times> remote" where
  "fs_mkdir r p =
     (if readonly r then (Some (IOError ''Permission denied''), r)
      else if fs_present r p then (Some (IOError ''Failure''), r)
      else if \<not> fs_parent_present r p then (Some (IOError ''No such file''), r)
      else (None, r\<lparr>dirs := dirs r @ [p]\<rparr>))"

definition fs_write :: "remote \<Rightarrow> string \<Rightarrow> string \<Rightarrow> exn option \<times> remote" where
  "fs_write r p content =
     (if readonly r then (Some (IOError ''Permission denied''), r)
      else if p \<in> set (dirs r) \<or> \<not> fs_parent_present r p then (Some (IOError ''Failure''), r)
      else (None, r\<lparr>files := (p, content) # filter (\<lambda>kv. fst kv \<noteq> p) (files r)\<rparr>))"

definition source_content :: "source \<Rightarrow> string" where
  "source_content sourcefile = (case sourcefile of PathStr s \<Rightarrow> s | FileLike _ _ d \<Rightarrow> d)"

definition fs_transport :: "(unit, remote) transport" where
  "fs_transport =
     \<lparr>new_client = (),
      set_policy = (\<lambda>s. s),
      ssh_connect = (\<lambda>s h kw. Inr s),
      open_sftp = (\<lambda>s. Inr \<lparr>dirs = [''/data''], files = [], readonly = False\<rparr>),
      ssh_close = (\<lambda>s. None),
      sftp_close = (\<lambda>r. None),
      sftp_stat = fs_lstat,
      sftp_lstat = fs_lstat,
      sftp_mkdir = fs_mkdir,
      sftp_put = (\<lambda>r localpath remotepath. fs_write r remotepath localpath),
      sftp_putfo = (\<lambda>r fl remotepath. fs_write r remotepath (source_content fl))\<rparr>"

text \<open>A manager for host \<open>h1\<close> as \<open>_start_connection\<close> builds it, connected to a remote.\<close>

definition connected :: "string \<Rightarrow> remote \<Rightarrow> (unit, remote) manager" where
  "connected h r =
     (init (Some h) (Some ''u'') (Some ''p'') 22 None (Some ''/data''))
       \<lparr>p_ssh := Some (), p_sftp := Obj r\<rparr>"

section \<open>Notions used in the statements\<close>

text \<open>
  Both handles are there and both \<open>close\<close> calls return: the case in which
  \<open>close_connection\<close> reaches its \<open>return True\<close>.
\<close>

definition handles_close :: "('s, 'r) transport \<Rightarrow> ('s, 'r) manager \<Rightarrow> bool" where
  "handles_close T m =
     (case p_sftp m of
        Obj r \<Rightarrow> sftp_close T r = None \<and>
                 (case p_ssh m of Some s \<Rightarrow> ssh_close T s = None | None \<Rightarrow> False)
      | _ \<Rightarrow> False)"

text \<open>A setting is missing when its key is absent or its value is the empty string.\<close>

definition missing :: "dict \<Rightarrow> string \<Rightarrow> bool" where
  "missing location k = (dict_get location k (PStr []) = PStr [])"

text \<open>Settings and an environment for the examples.\<close>

definition example_location :: dict where
  "example_location =
     Map.empty(''HOSTNAME'' \<mapsto> PStr ''h1'', ''USERNAME'' \<mapsto> PStr ''u'',
               ''PASSWORD'' \<mapsto> PStr ''p'', ''BASEPATH'' \<mapsto> PStr ''/data'')"

definition example_env :: env where
  "example_env =
     \<lparr>path_exists = (\<lambda>v. Inr (v = PStr ''/home/u/.ssh/id_rsa'')),
      py_int = (\<lambda>v. case v of
                      PInt i \<Rightarrow> Inr i
                    | PStr s \<Rightarrow> Inl (ValueError s)
                    | _ \<Rightarrow> Inl (TypeError ''int''))\<rparr>"

text \<open>What \<open>_decode_location\<close> returns for these settings.\<close>

definition example_config :: dict where
  "example_config =
     Map.empty(''hostname'' \<mapsto> PStr ''h1'', ''username'' \<mapsto> PStr ''u'',
       ''basepath'' \<mapsto> PStr ''/data'', ''protocol'' \<mapsto> PStr ''http://'',
       ''password'' \<mapsto> PStr ''p'', ''rsa_key'' \<mapsto> PNone, ''port'' \<mapsto> PInt 22,
       ''static_proxy_protocol'' \<mapsto> PStr ''http://'', ''static_proxy_hostname'' \<mapsto> PStr ''h1'',
       ''static_proxy_port'' \<mapsto> PStr ''80'')"

definition example_remote :: remote where
  "example_remote = \<lparr>dirs = [''/data''], files = [], readonly = False\<rparr>"

definition example_multi_location :: dict where
  "example_multi_location = example_location(''HOSTNAMES'' \<mapsto> PList [''h1'', ''h2''])"




text \<open>
  The names the spec lists for a destination that is taken: the destination itself, then
  the prefix, an underscore, the number and the extension.
\<close>

definition candidate :: "string \<Rightarrow> string \<Rightarrow> string \<Rightarrow> nat \<Rightarrow> string" where
  "candidate destpath filename_prefix filename_ext k =
     (if k = 0 then destpath else filename_prefix @ ''_'' @ str_nat k @ filename_ext)"

text \<open>
  The transfer call \<open>upload\<close> makes for a source (\<open>putfo\<close> for a file object, \<open>put\<close>
  for a path), and the value \<open>upload\<close> makes of its outcome.
\<close>

definition put_call :: "('s, 'r) transport \<Rightarrow> 'r \<Rightarrow> source \<Rightarrow> string \<Rightarrow> exn option \<times> 'r" where
  "put_call T r sourcefile destpath =
     (if source_is_file sourcefile then sftp_putfo T r sourcefile destpath
      else sftp_put T r (source_filename sourcefile) destpath)"

definition transfer_result :: "exn option \<Rightarrow> exn + bool" where
  "transfer_result res =
     (case res of None \<Rightarrow> Inr True | Some e \<Rightarrow> if is_IOError e then Inr False else Inl e)"

text \<open>A remote that holds \<open>/data/pic.jpg\<close>, and a file object to upload.\<close>

definition pic_remote :: remote where
  "pic_remote = example_remote\<lparr>files := [(''/data/pic.jpg'', ''old'')]\<rparr>"

definition pic_source :: source where
  "pic_source = FileLike ''pic.jpg'' True ''new''"










section \<open>Closing a connection\<close>

lemma close_connection_eq:
  "close_connection T m =
     (Inr (handles_close T m),
      if handles_close T m then (reset_config m)\<lparr>p_sftp := PyNone, p_ssh := None\<rparr>
      else reset_config m)"
  by (simp add: close_connection_def close_body_def handles_close_def reset_config_def Let_def
           split: attr.splits option.splits)

text \<open>
  C6.  \<open>close_connection\<close> never raises: its outcome is always a returned boolean.  The
  seven configuration attributes are back at their defaults afterwards.  The boolean is
  true exactly when both handles were there and both \<open>close\<close> calls returned; in that
  case both handle attributes are \<open>None\<close> afterwards.  Any failure of the close step is
  swallowed and gives false.
\<close>

theorem close_connection_never_raises:
  "fst (close_connection T m) = Inr (handles_close T m) \<and>
   hostname (snd (close_connection T m)) = None \<and>
   username (snd (close_connection T m)) = None \<and>
   password (snd (close_connection T m)) = None \<and>
   port (snd (close_connection T m)) = 22 \<and>
   rsa_key (snd (close_connection T m)) = None \<and>
   basepath (snd (close_connection T m)) = None \<and>
   currentpath (snd (close_connection T m)) = None \<and>
   (handles_close T m \<longrightarrow>
      p_sftp (snd (close_connection T m)) = PyNone \<and> p_ssh (snd (close_connection T m)) = None)"
  by (simp add: close_connection_eq reset_config_def)

theorem close_connection_never_raises_witness:
  "handles_close fs_transport (connected ''h1'' example_remote) \<and>
   close_connection fs_transport (connected ''h1'' example_remote)
     = (Inr True, init None None None 22 None None) \<and>
   close_connection fs_transport
       (init (Some ''h1'') (Some ''u'') (Some ''p'') 22 None (Some ''/data''))
     = (Inr False, init None None None 22 None None)"
  using close_connection_never_raises [of fs_transport "connected ''h1'' example_remote"]
  by (simp add: close_connection_eq handles_close_def connected_def init_def fs_transport_def
        reset_config_def)

text \<open>
  C9.  The configuration attributes are assigned before the handles are closed.  So when
  \<open>close_connection\<close> returns false the configuration is cleared all the same, and the
  two handle attributes are as they were before the call: they are not set to \<open>None\<close>,
  and a handle that was there is still there.
\<close>

theorem close_connection_false_keeps_handles:
  "fst (close_connection T m) = Inr False \<Longrightarrow>
   hostname (snd (close_connection T m)) = None \<and>
   username (snd (close_connection T m)) = None \<and>
   password (snd (close_connection T m)) = None \<and>
   port (snd (close_connection T m)) = 22 \<and>
   rsa_key (snd (close_connection T m)) = None \<and>
   basepath (snd (close_connection T m)) = None \<and>
   currentpath (snd (close_connection T m)) = None \<and>
   p_sftp (snd (close_connection T m)) = p_sftp m \<and>
   p_ssh (snd (close_connection T m)) = p_ssh m"
  by (simp add: close_connection_eq reset_config_def split: if_splits)

theorem close_connection_false_keeps_handles_witness:
  "fst (close_connection (fs_transport\<lparr>sftp_close := \<lambda>r. Some (IOError ''Socket is closed'')\<rparr>)
          (connected ''h1'' example_remote)) = Inr False \<and>
   snd (close_connection (fs_transport\<lparr>sftp_close := \<lambda>r. Some (IOError ''Socket is closed'')\<rparr>)
          (connected ''h1'' example_remote))
     = (init None None None 22 None None)\<lparr>p_ssh := Some (), p_sftp := Obj example_remote\<rparr>"
  using close_connection_false_keeps_handles
    [of "fs_transport\<lparr>sftp_close := \<lambda>r. Some (IOError ''Socket is closed'')\<rparr>"
        "connected ''h1'' example_remote"]
  by (simp add: close_connection_eq handles_close_def connected_def init_def fs_transport_def
        reset_config_def)

section \<open>The lazy accessor\<close>

text \<open>
  C5.  The property \<open>sftp\<close> calls \<open>setup\<close> only when the instance has no attribute
  \<open>_sftp\<close>.  The constructor and \<open>close_connection\<close> both assign \<open>None\<close> to it, so on a
  manager that was never connected, and on one that was connected and then closed, the
  property returns \<open>None\<close>: no client is created, nothing is logged, the manager is
  unchanged.
\<close>

theorem sftp_property_returns_none:
  "sftp fs_transport (init (Some ''h1'') (Some ''u'') (Some ''p'') 22 None (Some ''/data''))
     = (Inr PyNone, init (Some ''h1'') (Some ''u'') (Some ''p'') 22 None (Some ''/data''), []) \<and>
   sftp fs_transport (snd (close_connection fs_transport (connected ''h1'' example_remote)))
     = (Inr PyNone, init None None None 22 None None, [])"
  by (simp add: sftp_def close_connection_eq handles_close_def connected_def init_def
        fs_transport_def reset_config_def)

section \<open>The decoded configuration\<close>

lemma bind_exn_Inr: "bind_exn x f = Inr y \<Longrightarrow> \<exists>v. x = Inr v \<and> f v = Inr y"
  by (cases x) (simp_all add: bind_exn_def)

lemma bind_exn_simps: "bind_exn (Inl e) f = Inl e" "bind_exn (Inr v) f = f v"
  by (simp_all add: bind_exn_def)

lemma getitem_simps:
  "getitem (c(k \<mapsto> v)) k' = (if k' = k then Inr v else getitem c k')"
  "getitem Map.empty k' = Inl (KeyError k')"
  by (simp_all add: getitem_def)

lemma dict_get_simps:
  "dict_get (c(k \<mapsto> v)) k' d = (if k' = k then v else dict_get c k' d)"
  "dict_get Map.empty k' d = d"
  by (simp_all add: dict_get_def)

lemma set_protocol_keys:
  "set_protocol location c = Inr c' \<Longrightarrow> \<exists>v. c' = c(''protocol'' \<mapsto> PStr v)"
  by (auto simp: set_protocol_def Let_def split: if_splits dest!: bind_exn_Inr)

lemma set_credentials_result:
  "set_credentials E location c = Inr c' \<Longrightarrow>
   c' = (if missing location ''PASSWORD''
         then c(''password'' \<mapsto> PNone, ''rsa_key'' \<mapsto> dict_get location ''RSA_KEY'' (PStr []))
         else c(''password'' \<mapsto> dict_get location ''PASSWORD'' (PStr []), ''rsa_key'' \<mapsto> PNone))"
  by (auto simp: set_credentials_def missing_def getitem_def dict_get_def
           split: if_splits option.splits dest!: bind_exn_Inr)

lemma set_credentials_keys:
  "set_credentials E location c = Inr c' \<Longrightarrow>
   \<exists>v w. c' = c(''password'' \<mapsto> v, ''rsa_key'' \<mapsto> w)"
  using set_credentials_result [of E location c c'] by metis

lemma set_port_keys:
  "set_port E location c = Inr c' \<Longrightarrow> \<exists>v. c' = c(''port'' \<mapsto> v)"
  by (auto simp: set_port_def split: if_splits sum.splits dest!: bind_exn_Inr)

lemma set_static_proxy_protocol_keys:
  "set_static_proxy_protocol location c = Inr c' \<Longrightarrow>
   \<exists>v. c' = c(''static_proxy_protocol'' \<mapsto> v)"
  by (auto simp: set_static_proxy_protocol_def Let_def split: if_splits dest!: bind_exn_Inr)

lemma set_static_proxy_hostname_keys:
  "set_static_proxy_hostname location c = Inr c' \<Longrightarrow>
   \<exists>v. c' = c(''static_proxy_hostname'' \<mapsto> v)"
  by (auto simp: set_static_proxy_hostname_def Let_def split: if_splits dest!: bind_exn_Inr)

lemma set_static_proxy_port_keys:
  "set_static_proxy_port E location c = Inr c' \<Longrightarrow> \<exists>v. c' = c(''static_proxy_port'' \<mapsto> v)"
  by (auto simp: set_static_proxy_port_def Let_def split: if_splits sum.splits)

lemma decode_location_keys:
  assumes "decode_location E location = Inr config"
  shows "\<exists>h u b pr pw key po spp sph spo.
           config = Map.empty(''hostname'' \<mapsto> h, ''username'' \<mapsto> u, ''basepath'' \<mapsto> b,
             ''protocol'' \<mapsto> pr, ''password'' \<mapsto> pw, ''rsa_key'' \<mapsto> key, ''port'' \<mapsto> po,
             ''static_proxy_protocol'' \<mapsto> spp, ''static_proxy_hostname'' \<mapsto> sph,
             ''static_proxy_port'' \<mapsto> spo)"
proof -
  from assms obtain h u b c1 c2 c3 c4 c5 where
    c1: "set_protocol location
           (Map.empty(''hostname'' \<mapsto> h, ''username'' \<mapsto> u, ''basepath'' \<mapsto> b)) = Inr c1"
    and c2: "set_credentials E location c1 = Inr c2"
    and c3: "set_port E location c2 = Inr c3"
    and c4: "set_static_proxy_protocol location c3 = Inr c4"
    and c5: "set_static_proxy_hostname location c4 = Inr c5"
    and c6: "set_static_proxy_port E location c5 = Inr config"
    unfolding decode_location_def
    by (auto split: if_splits dest!: bind_exn_Inr)
  from set_protocol_keys [OF c1] set_credentials_keys [OF c2] set_port_keys [OF c3]
    set_static_proxy_protocol_keys [OF c4] set_static_proxy_hostname_keys [OF c5]
    set_static_proxy_port_keys [OF c6]
  show ?thesis by blast
qed

lemma decode_location_no_location:
  assumes "decode_location E location = Inr config"
  shows "config ''location'' = None \<and> config ''static_proxy_hostname'' \<noteq> None \<and>
         config ''static_proxy_port'' \<noteq> None \<and> config ''static_proxy_protocol'' \<noteq> None"
  using decode_location_keys [OF assms] by auto

lemma url_without_location:
  assumes "config ''location'' = None" "config ''static_proxy_hostname'' \<noteq> None"
    "config ''static_proxy_port'' \<noteq> None" "config ''static_proxy_protocol'' \<noteq> None"
  shows "url config name = Inl (KeyError ''location'')"
  using assms by (auto simp: url_def getitem_def bind_exn_def Let_def)

lemmas decode_simps =
  decode_location_def bind_exn_simps getitem_simps dict_get_simps set_protocol_def
  set_credentials_def set_port_def set_static_proxy_protocol_def set_static_proxy_hostname_def
  set_static_proxy_port_def Let_def

lemmas join_simps =
  py_os_path_join_def os_path_join_def join_step_def startswith_sep_def endswith_sep_def

lemma example_decode:
  "ssh_storage_init example_env example_location = Inr example_config"
  by (simp add: ssh_storage_init_def decode_simps example_location_def example_env_def
        example_config_def)

lemma example_multi_decode:
  "multi_decode_location example_env example_multi_location =
     Inr (example_config(''hostname'' \<mapsto> PStr ''localhost'',
                         ''static_proxy_hostname'' \<mapsto> PStr ''localhost'',
                         ''hostnames'' \<mapsto> PList [''h1'', ''h2'']))"
  by (simp add: multi_decode_location_def decode_simps example_multi_location_def
        example_location_def example_env_def example_config_def)
     (auto simp: fun_eq_iff)

lemma example_static:
  "static_storage_init example_env example_location ''static'' =
     Inr (example_config(''location'' \<mapsto> PStr ''static'', ''basepath'' \<mapsto> PStr ''/data/static''))"
  by (simp add: static_storage_init_def example_decode bind_exn_simps add_to_basepath_def Let_def)
     (simp add: example_config_def getitem_simps bind_exn_simps join_simps)

lemma example_url:
  "url (example_config(''location'' \<mapsto> PStr ''static'', ''basepath'' \<mapsto> PStr ''/data/static''))
       ''pic.jpg'' = Inr ''http://h1/static/pic.jpg''"
  by (simp add: url_def example_config_def bind_exn_simps getitem_simps Let_def join_simps)

text \<open>
  C10.  \<open>url\<close> reads the key \<open>location\<close> of the configuration.  Neither
  \<open>SSHStorage._decode_location\<close> nor the one of \<open>MultipleSSHStorages\<close> enters that key,
  so on a configuration as either of them returns it every call of \<open>url\<close> raises
  \<open>KeyError\<close> for \<open>location\<close>.  After \<open>_add_to_basepath\<close> (the constructors of
  \<open>StaticStorage\<close> and \<open>MediaStorage\<close>) the key is there and \<open>url\<close> does not raise it.
\<close>

theorem url_raises_without_location:
  "(ssh_storage_init E location = Inr config \<longrightarrow>
      url config name = Inl (KeyError ''location'')) \<and>
   (multi_decode_location E location = Inr config \<longrightarrow>
      url config name = Inl (KeyError ''location'')) \<and>
   (static_storage_init E location l = Inr config \<longrightarrow>
      url config name \<noteq> Inl (KeyError ''location''))"
proof (intro conjI impI)
  assume "ssh_storage_init E location = Inr config"
  then show "url config name = Inl (KeyError ''location'')"
    using decode_location_no_location [of E location config]
    by (simp add: ssh_storage_init_def url_without_location)
next
  assume "multi_decode_location E location = Inr config"
  then obtain c hs
    where c: "decode_location E (location(''HOSTNAME'' \<mapsto> PStr ''localhost'')) = Inr c"
      and cfg: "config = c(''hostnames'' \<mapsto> hs)"
    by (auto simp: multi_decode_location_def Let_def split: if_splits dest!: bind_exn_Inr)
  from decode_location_no_location [OF c] show "url config name = Inl (KeyError ''location'')"
    by (intro url_without_location) (simp_all add: cfg)
next
  assume "static_storage_init E location l = Inr config"
  then obtain c p where c: "decode_location E location = Inr c"
    and cfg: "config = c(''location'' \<mapsto> PStr l, ''basepath'' \<mapsto> PStr p)"
    by (auto simp: static_storage_init_def ssh_storage_init_def add_to_basepath_def Let_def
             dest!: bind_exn_Inr)
  from decode_location_no_location [OF c]
  show "url config name \<noteq> Inl (KeyError ''location'')"
    by (auto simp: cfg url_def getitem_def bind_exn_def Let_def py_os_path_join_def
             split: if_splits)
qed

theorem url_raises_without_location_witness:
  "ssh_storage_init example_env example_location = Inr example_config \<and>
   url example_config ''pic.jpg'' = Inl (KeyError ''location'') \<and>
   multi_decode_location example_env example_multi_location =
     Inr (example_config(''hostname'' \<mapsto> PStr ''localhost'',
                         ''static_proxy_hostname'' \<mapsto> PStr ''localhost'',
                         ''hostnames'' \<mapsto> PList [''h1'', ''h2''])) \<and>
   url (example_config(''hostname'' \<mapsto> PStr ''localhost'',
                       ''static_proxy_hostname'' \<mapsto> PStr ''localhost'',
                       ''hostnames'' \<mapsto> PList [''h1'', ''h2''])) ''pic.jpg''
     = Inl (KeyError ''location'') \<and>
   static_storage_init example_env example_location ''static'' =
     Inr (example_config(''location'' \<mapsto> PStr ''static'', ''basepath'' \<mapsto> PStr ''/data/static'')) \<and>
   url (example_config(''location'' \<mapsto> PStr ''static'', ''basepath'' \<mapsto> PStr ''/data/static''))
       ''pic.jpg'' = Inr ''http://h1/static/pic.jpg''"
  using url_raises_without_location
    [of example_env example_location example_config "''pic.jpg''" "''static''"]
    url_raises_without_location
    [of example_env example_multi_location
        "example_config(''hostname'' \<mapsto> PStr ''localhost'',
                        ''static_proxy_hostname'' \<mapsto> PStr ''localhost'',
                        ''hostnames'' \<mapsto> PList [''h1'', ''h2''])" "''pic.jpg''" "''static''"]
  by (simp add: example_decode example_multi_decode example_static example_url)











section \<open>The coordinator\<close>









section \<open>Upload\<close>

lemma find_destpath_absent:
  "sftp_lstat T r d = Some e \<Longrightarrow> find_destpath T (Obj r) ow p x c d ev = Some (d, ev)"
  by (subst find_destpath.simps) simp

lemma find_destpath_overwrite:
  "sftp_lstat T r d = None \<Longrightarrow>
   find_destpath T (Obj r) True p x c d ev
     = Some (d, ev @ [(DEBUG, ''Filename found. Overwriting'')])"
  by (subst find_destpath.simps) simp



lemma upload_stages:
  assumes "resolve_path m path = Inr (Some p)"
    and "mkdir T m (Some p) True = (Inr (Some p), m1)"
    and "os_path_splitext (os_path_join p [resolve_destname (source_filename s) destname])
           = (pre, ext)"
    and "find_destpath T (p_sftp m1) ow pre ext 0
           (os_path_join p [resolve_destname (source_filename s) destname]) [] = Some (d, ev1)"
    and "transfer T m1 s (source_is_file s) (source_filename s) d = (res, m2, ev2)"
  shows "upload T m s path destname ow = Some (res, m2, ev1 @ ev2)"
  using assms by (simp add: upload_def Let_def)

lemma transfer_obj:
  assumes "p_sftp m1 = Obj r1"
  shows "\<exists>ev. transfer T m1 s (source_is_file s) (source_filename s) d
           = (transfer_result (fst (put_call T r1 s d)),
              m1\<lparr>p_sftp := Obj (snd (put_call T r1 s d))\<rparr>,
              (DEBUG, ''Uploading '' @ source_filename s @ '' to '' @ d) # ev) \<and>
              (\<forall>l t. (l, t) \<in> set ev \<longrightarrow> l = ERROR)"
  using assms
  by (auto simp: transfer_def Let_def put_call_def transfer_result_def split: prod.splits option.splits)



lemmas fs_simps =
  fs_transport_def fs_lstat_def fs_present_def fs_mkdir_def fs_write_def fs_parent_present_def
  source_content_def example_remote_def connected_def init_def

lemmas path_simps =
  os_path_join_def join_step_def startswith_sep_def endswith_sep_def os_path_split_def
  rfind_def rstrip_sep_def os_path_splitext_def Let_def

lemma pic_resolve: "resolve_path (connected h pic_remote) None = Inr (Some ''/data'')"
  by (simp add: resolve_path_def connected_def init_def)

lemma pic_mkdir:
  "mkdir fs_transport (connected h pic_remote) (Some ''/data'') True
     = (Inr (Some ''/data''), connected h pic_remote)"
  by (simp add: mkdir_def pic_remote_def fs_simps path_simps)

lemma pic_names:
  "os_path_join ''/data'' [resolve_destname (source_filename pic_source) None] = ''/data/pic.jpg''"
  "os_path_splitext ''/data/pic.jpg'' = (''/data/pic'', ''.jpg'')"
  "candidate ''/data/pic.jpg'' ''/data/pic'' ''.jpg'' 0 = ''/data/pic.jpg''"
  "candidate ''/data/pic.jpg'' ''/data/pic'' ''.jpg'' 1 = ''/data/pic_1.jpg''"
  by (simp_all add: resolve_destname_def source_filename_def pic_source_def path_simps
        candidate_def str_nat.simps digit_char_def)

lemma pic_probe:
  "sftp_lstat fs_transport pic_remote ''/data/pic.jpg'' = None"
  "sftp_lstat fs_transport pic_remote ''/data/pic_1.jpg'' = Some (IOError ''No such file'')"
  by (simp_all add: pic_remote_def fs_simps)

lemma pic_put:
  "put_call fs_transport pic_remote pic_source ''/data/pic_1.jpg''
     = (None, example_remote\<lparr>files := [(''/data/pic_1.jpg'', ''new''), (''/data/pic.jpg'', ''old'')]\<rparr>)"
  "put_call fs_transport pic_remote pic_source ''/data/pic.jpg''
     = (None, example_remote\<lparr>files := [(''/data/pic.jpg'', ''new'')]\<rparr>)"
  by (simp_all add: put_call_def pic_source_def source_is_file_def pic_remote_def fs_simps path_simps)



text \<open>
  C4 (as amended).  An upload with \<open>overwrite=True\<close>, once the directory step has
  returned: the destination is probed once, the answer only decides whether
  \<open>Filename found. Overwriting\<close> is logged, no other name is tried, and the transfer
  goes to the resolved directory joined with the destination name; the result is true
  when the transfer returns, false when it raises \<open>IOError\<close>.
\<close>

theorem upload_overwrite_exact_path:
  assumes "resolve_path m path = Inr (Some p)"
    and "mkdir T m (Some p) True = (Inr (Some p), m1)"
    and "p_sftp m1 = Obj r1"
    and "destpath = os_path_join p [resolve_destname (source_filename sourcefile) destname]"
  shows "\<exists>ev. upload T m sourcefile path destname True =
           Some (transfer_result (fst (put_call T r1 sourcefile destpath)),
                 m1\<lparr>p_sftp := Obj (snd (put_call T r1 sourcefile destpath))\<rparr>, ev) \<and>
           ((DEBUG, ''Filename found. Overwriting'') \<in> set ev)
             = (sftp_lstat T r1 destpath = None)"
proof -
  obtain pre ext where sp: "os_path_splitext
      (os_path_join p [resolve_destname (source_filename sourcefile) destname]) = (pre, ext)"
    by (cases "os_path_splitext
      (os_path_join p [resolve_destname (source_filename sourcefile) destname])")
  from transfer_obj [OF assms(3), of T sourcefile destpath]
  obtain ev2 where t: "transfer T m1 sourcefile (source_is_file sourcefile)
      (source_filename sourcefile) destpath
      = (transfer_result (fst (put_call T r1 sourcefile destpath)),
         m1\<lparr>p_sftp := Obj (snd (put_call T r1 sourcefile destpath))\<rparr>,
         (DEBUG, ''Uploading '' @ source_filename sourcefile @ '' to '' @ destpath) # ev2)"
    and lv: "\<forall>l t. (l, t) \<in> set ev2 \<longrightarrow> l = ERROR"
    by blast
  from lv have notin: "(DEBUG, ''Filename found. Overwriting'') \<notin> set ev2" by auto
  show ?thesis
  proof (cases "sftp_lstat T r1 destpath")
    case None
    then have f: "find_destpath T (p_sftp m1) True pre ext 0
        (os_path_join p [resolve_destname (source_filename sourcefile) destname]) []
        = Some (destpath, [(DEBUG, ''Filename found. Overwriting'')])"
      using assms(3,4) by (simp add: find_destpath_overwrite)
    from upload_stages [OF assms(1,2) sp f t] None show ?thesis by simp
  next
    case (Some e)
    then have f: "find_destpath T (p_sftp m1) True pre ext 0
        (os_path_join p [resolve_destname (source_filename sourcefile) destname]) []
        = Some (destpath, [])"
      using assms(3,4) by (simp add: find_destpath_absent)
    from upload_stages [OF assms(1,2) sp f t] Some notin show ?thesis by simp
  qed
qed

theorem upload_overwrite_exact_path_witness:
  "\<exists>ev. upload fs_transport (connected ''h1'' pic_remote) pic_source None None True
          = Some (Inr True,
                  connected ''h1'' (example_remote\<lparr>files := [(''/data/pic.jpg'', ''new'')]\<rparr>),
                  ev) \<and>
        (DEBUG, ''Filename found. Overwriting'') \<in> set ev"
proof -
  have p: "p_sftp (connected ''h1'' pic_remote) = Obj pic_remote"
    by (simp add: connected_def)
  from upload_overwrite_exact_path [OF pic_resolve pic_mkdir p pic_names(1) [symmetric]]
  show ?thesis
    unfolding pic_put pic_probe by (simp add: transfer_result_def connected_def)
qed

text \<open>
  C4 as stated does not hold: the probe is not skipped.  Two runs of the same upload
  with \<open>overwrite=True\<close> on the same remote, the second on a transport whose \<open>lstat\<close>
  differs only in reporting the destination absent, write different logs.
\<close>

theorem upload_overwrite_probes:
  "upload fs_transport (connected ''h1'' pic_remote) pic_source None None True
     = Some (Inr True,
             connected ''h1'' (example_remote\<lparr>files := [(''/data/pic.jpg'', ''new'')]\<rparr>),
             [(DEBUG, ''Filename found. Overwriting''),
              (DEBUG, ''Uploading pic.jpg to /data/pic.jpg'')]) \<and>
   upload (fs_transport\<lparr>sftp_lstat :=
              \<lambda>r p. if p = ''/data/pic.jpg'' then Some (IOError ''No such file'')
                     else fs_lstat r p\<rparr>)
       (connected ''h1'' pic_remote) pic_source None None True
     = Some (Inr True,
             connected ''h1'' (example_remote\<lparr>files := [(''/data/pic.jpg'', ''new'')]\<rparr>),
             [(DEBUG, ''Uploading pic.jpg to /data/pic.jpg'')])"
proof -
  let ?T' = "fs_transport\<lparr>sftp_lstat :=
              \<lambda>r p. if p = ''/data/pic.jpg'' then Some (IOError ''No such file'')
                     else fs_lstat r p\<rparr>"
  let ?m = "connected ''h1'' pic_remote"
  let ?d = "os_path_join ''/data'' [resolve_destname (source_filename pic_source) None]"
  have mk: "mkdir ?T' ?m (Some ''/data'') True = (Inr (Some ''/data''), ?m)"
    by (simp add: mkdir_def pic_remote_def fs_simps path_simps)
  have p: "p_sftp ?m = Obj pic_remote"
    by (simp add: connected_def)
  have sp: "os_path_splitext ?d = (''/data/pic'', ''.jpg'')"
    by (simp only: pic_names)
  have f1: "find_destpath fs_transport (p_sftp ?m) True ''/data/pic'' ''.jpg'' 0 ?d []
       = Some (''/data/pic.jpg'', [(DEBUG, ''Filename found. Overwriting'')])"
    unfolding pic_names p by (simp add: find_destpath_overwrite pic_probe)
  have f2: "find_destpath ?T' (p_sftp ?m) True ''/data/pic'' ''.jpg'' 0 ?d []
       = Some (''/data/pic.jpg'', [])"
    unfolding pic_names p
    by (simp add: find_destpath_absent [where e = "IOError ''No such file''"])
  have sf: "source_is_file pic_source" "source_filename pic_source = ''pic.jpg''"
    by (simp_all add: source_is_file_def source_filename_def pic_source_def)
  have put: "sftp_putfo fs_transport pic_remote pic_source ''/data/pic.jpg''
       = (None, example_remote\<lparr>files := [(''/data/pic.jpg'', ''new'')]\<rparr>)"
      "sftp_putfo ?T' pic_remote pic_source ''/data/pic.jpg''
       = (None, example_remote\<lparr>files := [(''/data/pic.jpg'', ''new'')]\<rparr>)"
    by (simp_all add: pic_source_def pic_remote_def fs_simps path_simps)
  have t1: "transfer fs_transport ?m pic_source (source_is_file pic_source)
       (source_filename pic_source) ''/data/pic.jpg''
       = (Inr True, connected ''h1'' (example_remote\<lparr>files := [(''/data/pic.jpg'', ''new'')]\<rparr>),
          [(DEBUG, ''Uploading pic.jpg to /data/pic.jpg'')])"
    by (simp add: transfer_def p put sf) (simp add: connected_def init_def)
  have t2: "transfer ?T' ?m pic_source (source_is_file pic_source)
       (source_filename pic_source) ''/data/pic.jpg''
       = (Inr True, connected ''h1'' (example_remote\<lparr>files := [(''/data/pic.jpg'', ''new'')]\<rparr>),
          [(DEBUG, ''Uploading pic.jpg to /data/pic.jpg'')])"
    by (simp add: transfer_def p put sf) (simp add: connected_def init_def)
  from upload_stages [OF pic_resolve pic_mkdir sp f1 t1]
    upload_stages [OF pic_resolve mk sp f2 t2]
  show ?thesis by simp
qed

section \<open>Directory creation\<close>


















section \<open>The fan-out of an upload\<close>














end
